theory Spec2Isabelle
  imports Complex_Main
begin

section \<open>Kalman-filter track reconstruction: the program of kalman\_filter\_track.cpp\<close>

text \<open>
  The program works on C++ \<open>double\<close>s. They are embedded as the real numbers, and
  \<open>std::tan\<close>, \<open>std::cos\<close>, \<open>std::sin\<close> as the real functions \<^term>\<open>tan\<close>,
  \<^term>\<open>cos\<close>, \<^term>\<open>sin\<close>: every statement below is about the exact arithmetic the
  code approximates, not about rounding.
\<close>

subsection \<open>Fixed-size vectors and matrices\<close>

text \<open>
  \<open>SVector<double, 2>\<close> is a pair, entry 0 first. \<open>SMatrix<double, 2, 2>\<close> is a record
  of its four entries, \<open>mIJ\<close> being entry \<open>(I, J)\<close>. A \<open>1 x 2\<close> matrix is a row, a
  \<open>2 x 1\<close> matrix a column, a \<open>1 x 1\<close> matrix and an \<open>SVector<double, 1>\<close> a number.
\<close>

type_synonym SVector2 = "real \<times> real"

record SMatrix2x2 =
  m00 :: real
  m01 :: real
  m10 :: real
  m11 :: real

type_synonym SMatrix1x2 = "real \<times> real"
type_synonym SMatrix2x1 = "real \<times> real"
type_synonym SMatrix1x1 = real
type_synonym SVector1 = real

subsection \<open>Detector and physics parameters\<close>

definition n_layers :: nat where
  "n_layers = 10"

definition layer_x_positions :: "real list" where
  "layer_x_positions = [10, 20, 30, 40, 50, 60, 70, 80, 90, 100]"

definition measurement_error :: real where
  "measurement_error = 2.0"

definition process_noise_q :: real where
  "process_noise_q = 0.01"

definition pt :: real where
  "pt = 1.0"

definition B :: real where
  "B = 1.0"

definition R :: real where
  "R = (pt * 100) / (0.3 * B)"

subsection \<open>The motion model\<close>

definition propagate :: "SVector2 \<Rightarrow> real \<Rightarrow> real \<Rightarrow> SVector2" where
  "propagate state_k x_k x_k1 =
     (let y = fst state_k;
          phi = snd state_k;
          delta_x = x_k1 - x_k
      in (y + delta_x * tan phi, phi - (delta_x / R) / cos phi))"

definition jacobian_F :: "SVector2 \<Rightarrow> real \<Rightarrow> real \<Rightarrow> SMatrix2x2" where
  "jacobian_F state_k x_k x_k1 =
     (let phi = snd state_k;
          delta_x = x_k1 - x_k
      in \<lparr> m00 = 1.0,
           m01 = delta_x * (1.0 + tan phi * tan phi),
           m10 = 0.0,
           m11 = 1.0 - (delta_x / R) * (sin phi / (cos phi * cos phi)) \<rparr>)"

subsection \<open>Matrix arithmetic at the sizes the filter uses\<close>

definition mat_mul :: "SMatrix2x2 \<Rightarrow> SMatrix2x2 \<Rightarrow> SMatrix2x2" where
  "mat_mul A C =
     \<lparr> m00 = m00 A * m00 C + m01 A * m10 C,
       m01 = m00 A * m01 C + m01 A * m11 C,
       m10 = m10 A * m00 C + m11 A * m10 C,
       m11 = m10 A * m01 C + m11 A * m11 C \<rparr>"

definition Transpose :: "SMatrix2x2 \<Rightarrow> SMatrix2x2" where
  "Transpose A = \<lparr> m00 = m00 A, m01 = m10 A, m10 = m01 A, m11 = m11 A \<rparr>"

definition mat_add :: "SMatrix2x2 \<Rightarrow> SMatrix2x2 \<Rightarrow> SMatrix2x2" where
  "mat_add A C =
     \<lparr> m00 = m00 A + m00 C, m01 = m01 A + m01 C,
       m10 = m10 A + m10 C, m11 = m11 A + m11 C \<rparr>"

definition mat_sub :: "SMatrix2x2 \<Rightarrow> SMatrix2x2 \<Rightarrow> SMatrix2x2" where
  "mat_sub A C =
     \<lparr> m00 = m00 A - m00 C, m01 = m01 A - m01 C,
       m10 = m10 A - m10 C, m11 = m11 A - m11 C \<rparr>"

definition SMatrixIdentity :: SMatrix2x2 where
  "SMatrixIdentity = \<lparr> m00 = 1, m01 = 0, m10 = 0, m11 = 1 \<rparr>"

definition vec_add :: "SVector2 \<Rightarrow> SVector2 \<Rightarrow> SVector2" where
  "vec_add u v = (fst u + fst v, snd u + snd v)"

definition row_times_vec :: "SMatrix1x2 \<Rightarrow> SVector2 \<Rightarrow> SVector1" where
  "row_times_vec h v = fst h * fst v + snd h * snd v"

definition row_times_mat :: "SMatrix1x2 \<Rightarrow> SMatrix2x2 \<Rightarrow> SMatrix1x2" where
  "row_times_mat h A =
     (fst h * m00 A + snd h * m10 A, fst h * m01 A + snd h * m11 A)"

definition Transpose_row :: "SMatrix1x2 \<Rightarrow> SMatrix2x1" where
  "Transpose_row h = (fst h, snd h)"

definition row_times_col :: "SMatrix1x2 \<Rightarrow> SMatrix2x1 \<Rightarrow> SMatrix1x1" where
  "row_times_col h c = fst h * fst c + snd h * snd c"

definition mat_times_col :: "SMatrix2x2 \<Rightarrow> SMatrix2x1 \<Rightarrow> SMatrix2x1" where
  "mat_times_col A c =
     (m00 A * fst c + m01 A * snd c, m10 A * fst c + m11 A * snd c)"

definition col_times_scalar :: "SMatrix2x1 \<Rightarrow> SMatrix1x1 \<Rightarrow> SMatrix2x1" where
  "col_times_scalar c a = (fst c * a, snd c * a)"

definition col_times_row :: "SMatrix2x1 \<Rightarrow> SMatrix1x2 \<Rightarrow> SMatrix2x2" where
  "col_times_row c h =
     \<lparr> m00 = fst c * fst h, m01 = fst c * snd h,
       m10 = snd c * fst h, m11 = snd c * snd h \<rparr>"

definition col_times_vec1 :: "SMatrix2x1 \<Rightarrow> SVector1 \<Rightarrow> SVector2" where
  "col_times_vec1 c r = (fst c * r, snd c * r)"

text \<open>
  Modelled from the spec: \<open>S.Invert(S_inv)\<close> belongs to ROOT, which is not among the
  sources. The specification calls the inversion of the \<open>1 x 1\<close> matrix \<open>S\<close> a simple
  reciprocal and leaves the singular case undefined. So does the model: the first component
  tells whether \<open>S\<close> has a reciprocal, the second is the reciprocal when there is one and
  is left unspecified when there is none. The second argument is the output argument of the
  call.
\<close>

definition Invert :: "SMatrix1x1 \<Rightarrow> SMatrix1x1 \<Rightarrow> bool \<times> SMatrix1x1" where
  "Invert S S_inv = (if S = 0 then (False, undefined) else (True, 1 / S))"

subsection \<open>The noise source\<close>

text \<open>
  Modelled from the spec: \<open>TRandom3\<close> belongs to ROOT as well, and the specification
  takes it as an injected noise source that can sample a Gaussian. The generator is a
  parameter of the model: the sequence of standard normal deviates it will yield, and the
  number of them drawn so far. \<open>Gaus(mean, sigma)\<close> draws the next one, scales and
  shifts it.
\<close>

type_synonym TRandom3 = "(nat \<Rightarrow> real) \<times> nat"

definition Gaus :: "TRandom3 \<Rightarrow> real \<Rightarrow> real \<Rightarrow> real \<times> TRandom3" where
  "Gaus rng mean sigma =
     (mean + sigma * fst rng (snd rng), (fst rng, Suc (snd rng)))"

subsection \<open>The variables of \<open>main\<close>\<close>

record main_state =
  rng :: TRandom3
  true_x :: "real list"
  true_y :: "real list"
  current_true_state :: SVector2
  last_x :: real
  measured_y :: "real list"
  kf_x :: "real list"
  kf_y :: "real list"
  x_est :: SVector2
  P_est :: SMatrix2x2
  last_kf_x :: real

definition true_state_initial :: SVector2 where
  "true_state_initial = (5.0, - 0.2)"

text \<open>
  The state on entry to \<open>main\<close>, for the generator \<open>TRandom3 rng(0)\<close> yielding the
  deviates \<open>z\<close>. Vectors and matrices are zero until assigned, as their default constructors
  leave them.
\<close>

definition main_entry :: "(nat \<Rightarrow> real) \<Rightarrow> main_state" where
  "main_entry z =
     \<lparr> rng = (z, 0), true_x = [], true_y = [],
       current_true_state = (0, 0), last_x = 0, measured_y = [],
       kf_x = [], kf_y = [], x_est = (0, 0),
       P_est = \<lparr> m00 = 0, m01 = 0, m10 = 0, m11 = 0 \<rparr>, last_kf_x = 0 \<rparr>"

subsection \<open>1. Ground truth simulation\<close>

text \<open>The inner loop over \<open>x_step\<close>, in steps of \<open>0.5\<close>.\<close>

function ground_truth_steps :: "real \<Rightarrow> real \<Rightarrow> main_state \<Rightarrow> main_state" where
  "ground_truth_steps x_step current_x s =
     (if x_step < current_x
      then ground_truth_steps (x_step + 0.5) current_x
             (let st = propagate (current_true_state s) x_step (x_step + 0.5)
              in s\<lparr> current_true_state := st,
                    true_x := true_x s @ [x_step + 0.5],
                    true_y := true_y s @ [fst st] \<rparr>)
      else s)"
  by pat_completeness auto
termination
proof (relation "measure (\<lambda>(x_step, current_x, s). nat \<lceil>(current_x - x_step) * 2\<rceil>)")
  show "wf (measure (\<lambda>(x_step, current_x, s). nat \<lceil>(current_x - x_step) * 2\<rceil>))"
    by simp
next
  fix x_step current_x :: real and s x :: main_state
  assume less: "x_step < current_x"
  have "(current_x - (x_step + 0.5)) * 2 = (current_x - x_step) * 2 - 1"
    by (simp add: algebra_simps)
  then have "\<lceil>(current_x - (x_step + 0.5)) * 2\<rceil> = \<lceil>(current_x - x_step) * 2\<rceil> - 1"
    by (simp only: ceiling_diff_one)
  moreover from less have "0 < \<lceil>(current_x - x_step) * 2\<rceil>"
    by (simp add: ceiling_less_iff)
  ultimately show "((x_step + 0.5, current_x, x), (x_step, current_x, s))
      \<in> measure (\<lambda>(x_step, current_x, s). nat \<lceil>(current_x - x_step) * 2\<rceil>)"
    by simp
qed

declare ground_truth_steps.simps [simp del]

definition ground_truth_layer :: "nat \<Rightarrow> main_state \<Rightarrow> main_state" where
  "ground_truth_layer i s =
     (let current_x = layer_x_positions ! i;
          s' = ground_truth_steps (last_x s) current_x s
      in s'\<lparr> last_x := current_x \<rparr>)"

definition ground_truth :: "main_state \<Rightarrow> main_state" where
  "ground_truth s =
     fold ground_truth_layer [0..<n_layers]
       (s\<lparr> true_x := [], true_y := [],
            current_true_state := true_state_initial, last_x := 0.0 \<rparr>)"

subsection \<open>2. Simulated measurements\<close>

definition measure_layer :: "nat \<Rightarrow> main_state \<Rightarrow> main_state" where
  "measure_layer i s =
     (let current_x = layer_x_positions ! i;
          st = propagate (current_true_state s) (last_x s) current_x;
          draw = Gaus (rng s) 0 measurement_error;
          y_smeared = fst st + fst draw
      in s\<lparr> current_true_state := st,
            rng := snd draw,
            measured_y := measured_y s @ [y_smeared],
            last_x := current_x \<rparr>)"

definition simulate_measurements :: "main_state \<Rightarrow> main_state" where
  "simulate_measurements s =
     fold measure_layer [0..<n_layers]
       (s\<lparr> measured_y := [],
            current_true_state := true_state_initial, last_x := 0 \<rparr>)"

subsection \<open>3. The Kalman filter\<close>

definition H :: SMatrix1x2 where
  "H = (1.0, 0.0)"

definition R_matrix :: SMatrix1x1 where
  "R_matrix = measurement_error * measurement_error"

definition Q :: SMatrix2x2 where
  "Q = \<lparr> m00 = 0.0, m01 = 0, m10 = 0, m11 = process_noise_q \<rparr>"

text \<open>The initial guess and its covariance: two more draws from the generator.\<close>

definition kalman_init :: "main_state \<Rightarrow> main_state" where
  "kalman_init s =
     (let draw_y = Gaus (rng s) 0 5.0;
          draw_phi = Gaus (snd draw_y) 0 0.1
      in s\<lparr> kf_x := [], kf_y := [],
            x_est := (fst true_state_initial + fst draw_y,
                      snd true_state_initial + fst draw_phi),
            rng := snd draw_phi,
            P_est := \<lparr> m00 = 100.0, m01 = 0, m10 = 0, m11 = 1.0 \<rparr>,
            last_kf_x := 0.0 \<rparr>)"

text \<open>The prediction step of the loop body: \<open>x_pred\<close> and \<open>P_pred\<close>.\<close>

definition kf_predict ::
    "SVector2 \<Rightarrow> SMatrix2x2 \<Rightarrow> real \<Rightarrow> real \<Rightarrow> SVector2 \<times> SMatrix2x2" where
  "kf_predict x P x_prev x_k =
     (let F = jacobian_F x x_prev x_k;
          x_pred = propagate x x_prev x_k;
          P_pred = mat_add (mat_mul (mat_mul F P) (Transpose F)) Q
      in (x_pred, P_pred))"

text \<open>The innovation covariance \<open>S\<close> of the update step.\<close>

definition innovation_covariance :: "SMatrix2x2 \<Rightarrow> SMatrix1x1" where
  "innovation_covariance P_pred =
     row_times_col (row_times_mat H P_pred) (Transpose_row H) + R_matrix"

text \<open>
  The update step of the loop body: the new \<open>x_est\<close> and \<open>P_est\<close>. The flag of
  \<open>Invert\<close> is dropped, as in the source.
\<close>

definition kf_update ::
    "SVector2 \<Rightarrow> SMatrix2x2 \<Rightarrow> real \<Rightarrow> SVector2 \<times> SMatrix2x2" where
  "kf_update x_pred P_pred meas =
     (let y_residual = meas - row_times_vec H x_pred;
          S = innovation_covariance P_pred;
          S_inv = snd (Invert S 0);
          K = col_times_scalar (mat_times_col P_pred (Transpose_row H)) S_inv
      in (vec_add x_pred (col_times_vec1 K y_residual),
          mat_mul (mat_sub SMatrixIdentity (col_times_row K H)) P_pred))"

definition kf_layer :: "nat \<Rightarrow> main_state \<Rightarrow> main_state" where
  "kf_layer i s =
     (let pred = kf_predict (x_est s) (P_est s) (last_kf_x s) (layer_x_positions ! i);
          upd = kf_update (fst pred) (snd pred) (measured_y s ! i)
      in s\<lparr> x_est := fst upd,
            P_est := snd upd,
            kf_x := kf_x s @ [layer_x_positions ! i],
            kf_y := kf_y s @ [fst (fst upd)],
            last_kf_x := layer_x_positions ! i \<rparr>)"

text \<open>The filter after its first \<open>n\<close> layers, and the whole filter.\<close>

definition kf_after :: "nat \<Rightarrow> main_state \<Rightarrow> main_state" where
  "kf_after n s = fold kf_layer [0..<n] (kalman_init s)"

definition kalman_filter :: "main_state \<Rightarrow> main_state" where
  "kalman_filter s = kf_after n_layers s"

subsection \<open>4. The output\<close>

text \<open>The four sequences of the JSON object, before they are printed.\<close>

record json_object =
  detector_layers :: "real list"
  true_track :: "(real \<times> real) list"
  hits :: "(real \<times> real) list"
  kf_track :: "(real \<times> real) list"

definition json_output :: "main_state \<Rightarrow> json_object" where
  "json_output s =
     \<lparr> detector_layers = map (\<lambda>i. layer_x_positions ! i) [0..<n_layers],
       true_track = map (\<lambda>i. (true_x s ! i, true_y s ! i)) [0..<length (true_x s)],
       hits = map (\<lambda>i. (layer_x_positions ! i, measured_y s ! i)) [0..<n_layers],
       kf_track = map (\<lambda>i. (kf_x s ! i, kf_y s ! i)) [0..<length (kf_x s)] \<rparr>"

definition simulated :: "(nat \<Rightarrow> real) \<Rightarrow> main_state" where
  "simulated z = simulate_measurements (ground_truth (main_entry z))"

definition main_run :: "(nat \<Rightarrow> real) \<Rightarrow> json_object" where
  "main_run z = json_output (kalman_filter (simulated z))"

subsection \<open>How a call ends\<close>

text \<open>
  The source has no \<open>throw\<close>, no \<open>try\<close> and no error return: \<open>propagate\<close> and
  \<open>jacobian_F\<close> only do arithmetic and return. To state what they do where an error is
  expected, their result is also given as a value of \<open>error + result\<close>, with the three
  kinds of error the specification names; the source has no place that yields \<open>Inl\<close>.
\<close>

datatype error = DomainError | SingularMatrixError | ConfigurationError

definition propagate_outcome :: "SVector2 \<Rightarrow> real \<Rightarrow> real \<Rightarrow> error + SVector2" where
  "propagate_outcome state_k x_k x_k1 = Inr (propagate state_k x_k x_k1)"

definition jacobian_F_outcome :: "SVector2 \<Rightarrow> real \<Rightarrow> real \<Rightarrow> error + SMatrix2x2" where
  "jacobian_F_outcome state_k x_k x_k1 = Inr (jacobian_F state_k x_k x_k1)"

subsection \<open>What the properties are stated with\<close>

definition symmetric :: "SMatrix2x2 \<Rightarrow> bool" where
  "symmetric A = (m01 A = m10 A)"

text \<open>The quadratic form \<open>v\<^sup>T A v\<close>; \<open>A\<close> is positive semi-definite when it is never negative.\<close>

definition quad_form :: "SMatrix2x2 \<Rightarrow> SVector2 \<Rightarrow> real" where
  "quad_form A v =
     fst v * (m00 A * fst v + m01 A * snd v) + snd v * (m10 A * fst v + m11 A * snd v)"

text \<open>
  The test of a covariance by its entries: symmetric, with a non-negative diagonal and a
  non-negative determinant.
\<close>

definition valid_covariance :: "SMatrix2x2 \<Rightarrow> bool" where
  "valid_covariance A =
     (symmetric A \<and> 0 \<le> m00 A \<and> 0 \<le> m11 A \<and> 0 \<le> m00 A * m11 A - m01 A * m10 A)"

text \<open>
  The specification's account of the hits: the true state carried from the initial state to
  each layer in turn by one call of \<open>propagate\<close> per layer. \<open>position_after n\<close> is where
  the track is after \<open>n\<close> layers, \<open>true_state_after n\<close> its state there.
\<close>

fun position_after :: "nat \<Rightarrow> real" where
  "position_after 0 = 0"
| "position_after (Suc n) = layer_x_positions ! n"

fun true_state_after :: "nat \<Rightarrow> SVector2" where
  "true_state_after 0 = true_state_initial"
| "true_state_after (Suc n) =
     propagate (true_state_after n) (position_after n) (position_after (Suc n))"

section \<open>Properties of the motion model\<close>

lemma R_value: "R = 1000 / 3"
  by (simp add: R_def pt_def B_def)

lemma cos_nonzero_in_domain:
  fixes phi :: real
  assumes "\<bar>phi\<bar> < pi / 2"
  shows "cos phi \<noteq> 0"
proof -
  from assms have "- (pi / 2) < phi" and "phi < pi / 2"
    by linarith+
  then have "0 < cos phi"
    by (rule cos_gt_zero_pi)
  then show ?thesis
    by simp
qed

text \<open>
  Claim C1. For a state \<open>(y, \<phi>)\<close> with \<open>|\<phi>| < \<pi>/2\<close> and any two positions,
  \<open>propagate\<close> returns \<open>(y + \<Delta>x tan \<phi>, \<phi> - (\<Delta>x / R) / cos \<phi>)\<close> with
  \<open>\<Delta>x = x_to - x_from\<close>, and the radius \<open>R = p\<^sub>t 100 / (0.3 B)\<close> is \<open>1000 / 3\<close> for
  \<open>p\<^sub>t = 1\<close> and \<open>B = 1\<close>.
\<close>

theorem propagate_formula:
  assumes "\<bar>phi\<bar> < pi / 2"
  shows "propagate (y, phi) x_from x_to =
           (y + (x_to - x_from) * tan phi,
            phi - ((x_to - x_from) / R) / cos phi)
         \<and> R = pt * 100 / (0.3 * B) \<and> pt = 1 \<and> B = 1 \<and> R = 1000 / 3"
  by (simp add: propagate_def R_value pt_def B_def)

theorem propagate_formula_witness:
  "\<bar>0 :: real\<bar> < pi / 2 \<and> propagate (5, 0) 0 10 = (5, - (3 / 100))"
  using propagate_formula [of 0 5 0 10] by (simp add: R_value)

lemma tan_deriv_sec:
  fixes phi :: real
  assumes "cos phi \<noteq> 0"
  shows "(tan has_real_derivative 1 + tan phi * tan phi) (at phi)"
proof -
  have "(tan has_real_derivative inverse ((cos phi)\<^sup>2)) (at phi)"
    using assms by (rule DERIV_tan)
  moreover have "inverse ((cos phi)\<^sup>2) = 1 + tan phi * tan phi"
    using assms tan_sec [of phi] by (simp add: power2_eq_square)
  ultimately show ?thesis by simp
qed

lemma sec_deriv:
  fixes phi :: real
  assumes "cos phi \<noteq> 0"
  shows "((\<lambda>p. 1 / cos p) has_real_derivative sin phi / (cos phi * cos phi)) (at phi)"
  using assms by (auto intro!: derivative_eq_intros simp: power2_eq_square)


section \<open>The loops of \<open>main\<close>\<close>

subsection \<open>The dense ground truth\<close>

lemma fold_upt_Suc: "fold f [0..<Suc n] s = f n (fold f [0..<n] s)"
  by simp

lemma ground_truth_steps_rng: "rng (ground_truth_steps x c s) = rng s"
proof (induction x c s rule: ground_truth_steps.induct)
  case (1 x c s)
  show ?case
  proof (cases "x < c")
    case True
    with 1 show ?thesis by (simp add: Let_def ground_truth_steps.simps [of x c s])
  next
    case False
    then show ?thesis by (simp add: ground_truth_steps.simps [of x c s])
  qed
qed

lemma ground_truth_steps_true_x:
  "true_x (ground_truth_steps x c s) =
     true_x s @ map (\<lambda>k. x + (real k + 1) / 2) [0..<nat \<lceil>(c - x) * 2\<rceil>]"
proof (induction x c s rule: ground_truth_steps.induct)
  case (1 x c s)
  show ?case
  proof (cases "x < c")
    case True
    have eq: "(c - (x + 5 / 10)) * 2 = (c - x) * 2 - 1"
      by (simp add: algebra_simps)
    from True have pos: "0 < \<lceil>(c - x) * 2\<rceil>"
      by (simp add: ceiling_less_iff)
    define n where "n = nat \<lceil>(c - (x + 5 / 10)) * 2\<rceil>"
    have n: "nat \<lceil>(c - x) * 2\<rceil> = Suc n"
      unfolding n_def eq ceiling_diff_one using pos by linarith
    have "map (\<lambda>k. x + (real k + 1) / 2) [0..<Suc n] =
            (x + 1 / 2) # map (\<lambda>k. x + 5 / 10 + (real k + 1) / 2) [0..<n]"
    proof -
      have "[0..<Suc n] = 0 # map Suc [0..<n]"
        by (simp add: upt_conv_Cons map_Suc_upt del: upt_Suc)
      then show ?thesis
        by (simp add: algebra_simps del: upt_Suc)
    qed
    with 1 [OF True] True n show ?thesis
      by (simp add: Let_def n_def ground_truth_steps.simps [of x c s] del: upt_Suc)
  next
    case False
    then have "nat \<lceil>(c - x) * 2\<rceil> = 0"
      by (simp add: ceiling_le_iff)
    with False show ?thesis by (simp add: ground_truth_steps.simps [of x c s])
  qed
qed

lemma ground_truth_steps_length:
  "length (true_y s) = length (true_x s) \<Longrightarrow>
   length (true_y (ground_truth_steps x c s)) = length (true_x (ground_truth_steps x c s))"
proof (induction x c s rule: ground_truth_steps.induct)
  case (1 x c s)
  show ?case
  proof (cases "x < c")
    case True
    with 1 show ?thesis by (simp add: Let_def ground_truth_steps.simps [of x c s])
  next
    case False
    with 1 show ?thesis by (simp add: ground_truth_steps.simps [of x c s])
  qed
qed

subsection \<open>The simulated measurements\<close>

lemma layer_x_positions_nth:
  "i < 10 \<Longrightarrow> layer_x_positions ! i = 10 * (real i + 1)"
proof -
  have "layer_x_positions = map (\<lambda>i. 10 * (real i + 1)) [0..<10]"
    by (simp add: layer_x_positions_def upt_rec)
  moreover assume "i < 10"
  ultimately show "layer_x_positions ! i = 10 * (real i + 1)"
    using nth_map_upt [of i 10 0 "\<lambda>i. 10 * (real i + 1)"] by simp
qed

lemma position_after_eq: "n \<le> 10 \<Longrightarrow> position_after n = 10 * real n"
  by (cases n) (simp_all add: layer_x_positions_nth)

lemma measure_loop:
  assumes "rng s = (z, k)"
  shows "fold measure_layer [0..<n]
           (s\<lparr> measured_y := [], current_true_state := true_state_initial, last_x := 0 \<rparr>) =
         s\<lparr> measured_y :=
               map (\<lambda>i. fst (true_state_after (Suc i)) + measurement_error * z (k + i)) [0..<n],
             current_true_state := true_state_after n,
             last_x := position_after n,
             rng := (z, k + n) \<rparr>"
proof (induction n)
  case 0
  from assms show ?case by simp
next
  case (Suc n)
  let ?s0 = "s\<lparr> measured_y := [], current_true_state := true_state_initial, last_x := 0 \<rparr>"
  have "fold measure_layer [0..<Suc n] ?s0 = measure_layer n (fold measure_layer [0..<n] ?s0)"
    by simp
  also have "\<dots> = measure_layer n
      (s\<lparr> measured_y :=
               map (\<lambda>i. fst (true_state_after (Suc i)) + measurement_error * z (k + i)) [0..<n],
             current_true_state := true_state_after n,
             last_x := position_after n,
             rng := (z, k + n) \<rparr>)"
    by (simp only: Suc)
  also have "\<dots> = s\<lparr> measured_y :=
               map (\<lambda>i. fst (true_state_after (Suc i)) + measurement_error * z (k + i))
                 [0..<Suc n],
             current_true_state := true_state_after (Suc n),
             last_x := position_after (Suc n),
             rng := (z, k + Suc n) \<rparr>"
    by (simp add: measure_layer_def Gaus_def Let_def)
  finally show ?case .
qed

lemma simulate_measurements_eq:
  assumes "rng s = (z, k)"
  shows "simulate_measurements s =
         s\<lparr> measured_y :=
               map (\<lambda>i. fst (true_state_after (Suc i)) + measurement_error * z (k + i))
                 [0..<n_layers],
             current_true_state := true_state_after n_layers,
             last_x := position_after n_layers,
             rng := (z, k + n_layers) \<rparr>"
  unfolding simulate_measurements_def by (rule measure_loop [OF assms])

subsection \<open>The layers of the ground truth and of the filter\<close>

lemma ground_truth_layer_rng: "rng (ground_truth_layer i s) = rng s"
  by (simp add: ground_truth_layer_def Let_def ground_truth_steps_rng)

lemma ground_truth_layer_true_x:
  "true_x (ground_truth_layer i s) =
     true_x s @ map (\<lambda>k. last_x s + (real k + 1) / 2)
       [0..<nat \<lceil>(layer_x_positions ! i - last_x s) * 2\<rceil>]"
  by (simp add: ground_truth_layer_def Let_def ground_truth_steps_true_x)

lemma ground_truth_layer_last_x: "last_x (ground_truth_layer i s) = layer_x_positions ! i"
  by (simp add: ground_truth_layer_def Let_def)

lemma ground_truth_layer_length:
  "length (true_y s) = length (true_x s) \<Longrightarrow>
   length (true_y (ground_truth_layer i s)) = length (true_x (ground_truth_layer i s))"
  by (simp add: ground_truth_layer_def Let_def ground_truth_steps_length)

lemma dense_chunk:
  "map (\<lambda>k. (real k + 1) / 2) [0..<20 * n] @ map (\<lambda>k. 10 * real n + (real k + 1) / 2) [0..<20]
     = map (\<lambda>k. (real k + 1) / 2) [0..<20 * Suc n]"
proof -
  have "[0..<20 * Suc n] = [0..<20 * n] @ [20 * n..<20 * n + 20]"
    using upt_add_eq_append [of 0 "20 * n" 20] by (simp add: add.commute)
  moreover have "[20 * n..<20 * n + 20] = map (\<lambda>i. i + 20 * n) [0..<20]"
    using map_add_upt [of "20 * n" 20] by (simp add: add.commute)
  ultimately have "map (\<lambda>k. (real k + 1) / 2) [0..<20 * Suc n] =
      map (\<lambda>k. (real k + 1) / 2) [0..<20 * n] @
      map (\<lambda>k. (real k + 1) / 2) (map (\<lambda>i. i + 20 * n) [0..<20])"
    by (simp only: map_append)
  also have "map (\<lambda>k. (real k + 1) / 2) (map (\<lambda>i. i + 20 * n) [0..<20]) =
      map (\<lambda>k. 10 * real n + (real k + 1) / 2) [0..<20]"
    unfolding map_map by (rule map_cong [OF refl]) (simp add: field_simps)
  finally show ?thesis by simp
qed

lemma ground_truth_loop:
  fixes s :: main_state
  assumes "n \<le> 10"
  defines "s0 \<equiv> s\<lparr> true_x := [], true_y := [],
                     current_true_state := true_state_initial, last_x := 0.0 \<rparr>"
  shows "true_x (fold ground_truth_layer [0..<n] s0) = map (\<lambda>k. (real k + 1) / 2) [0..<20 * n]
       \<and> last_x (fold ground_truth_layer [0..<n] s0) = 10 * real n
       \<and> length (true_y (fold ground_truth_layer [0..<n] s0)) =
           length (true_x (fold ground_truth_layer [0..<n] s0))
       \<and> rng (fold ground_truth_layer [0..<n] s0) = rng s"
  using assms(1)
proof (induction n)
  case 0
  show ?case by (simp add: s0_def)
next
  case (Suc n)
  let ?t = "fold ground_truth_layer [0..<n] s0"
  from Suc have n: "n < 10" and ih:
    "true_x ?t = map (\<lambda>k. (real k + 1) / 2) [0..<20 * n]"
    "last_x ?t = 10 * real n"
    "length (true_y ?t) = length (true_x ?t)"
    "rng ?t = rng s"
    by simp_all
  have step: "fold ground_truth_layer [0..<Suc n] s0 = ground_truth_layer n ?t"
    by simp
  have pos: "layer_x_positions ! n = 10 * (real n + 1)"
    using n by (rule layer_x_positions_nth)
  have "(layer_x_positions ! n - last_x ?t) * 2 = 20"
    unfolding pos ih(2) by (simp add: distrib_left)
  then have cnt: "nat \<lceil>(layer_x_positions ! n - last_x ?t) * 2\<rceil> = 20"
    by simp
  have "true_x (ground_truth_layer n ?t) =
          true_x ?t @ map (\<lambda>k. 10 * real n + (real k + 1) / 2) [0..<20]"
    by (simp only: ground_truth_layer_true_x cnt) (simp only: ih(2))
  then have "true_x (ground_truth_layer n ?t) = map (\<lambda>k. (real k + 1) / 2) [0..<20 * Suc n]"
    by (simp only: ih(1) dense_chunk)
  moreover have "last_x (ground_truth_layer n ?t) = 10 * real (Suc n)"
    by (simp only: ground_truth_layer_last_x pos) simp
  moreover have "length (true_y (ground_truth_layer n ?t)) =
      length (true_x (ground_truth_layer n ?t))"
    by (rule ground_truth_layer_length [OF ih(3)])
  moreover have "rng (ground_truth_layer n ?t) = rng s"
    by (simp only: ground_truth_layer_rng ih(4))
  ultimately show ?case
    by (simp only: step simp_thms)
qed

lemma ground_truth_true_x:
  "true_x (ground_truth s) = map (\<lambda>k. (real k + 1) / 2) [0..<200]"
  and ground_truth_length: "length (true_y (ground_truth s)) = length (true_x (ground_truth s))"
  and ground_truth_rng: "rng (ground_truth s) = rng s"
  using ground_truth_loop [of 10 s] by (simp_all add: ground_truth_def n_layers_def)

lemma kf_after_Suc: "kf_after (Suc n) s = kf_layer n (kf_after n s)"
  by (simp add: kf_after_def)

lemma kf_after_frame:
  "kf_x (kf_after n s) = map (\<lambda>i. layer_x_positions ! i) [0..<n]
   \<and> length (kf_y (kf_after n s)) = n
   \<and> rng (kf_after n s) = rng (kalman_init s)
   \<and> measured_y (kf_after n s) = measured_y s
   \<and> true_x (kf_after n s) = true_x s
   \<and> true_y (kf_after n s) = true_y s"
proof (induction n)
  case 0
  show ?case by (simp add: kf_after_def kalman_init_def Let_def)
next
  case (Suc n)
  then show ?case
    unfolding kf_after_Suc by (simp add: kf_layer_def Let_def)
qed

lemma layers_by_index: "map (\<lambda>i. layer_x_positions ! i) [0..<n_layers] = layer_x_positions"
proof -
  have "length layer_x_positions = n_layers"
    by (simp add: layer_x_positions_def n_layers_def)
  then show ?thesis
    using map_nth [of layer_x_positions] by simp
qed

section \<open>The covariance through predict and update\<close>

lemma quad_nonneg:
  fixes a b d u v :: real
  assumes a: "0 \<le> a" and d: "0 \<le> d" and det: "b * b \<le> a * d"
  shows "0 \<le> a * (u * u) + 2 * b * (u * v) + d * (v * v)"
proof (cases "a = 0")
  case True
  with det have "b * b \<le> 0" by simp
  then have "b = 0"
    using zero_le_square [of b] by (simp add: antisym)
  with True d show ?thesis by simp
next
  case False
  with a have pos: "0 < a" by simp
  have "a * (a * (u * u) + 2 * b * (u * v) + d * (v * v)) =
          (a * u + b * v) * (a * u + b * v) + (a * d - b * b) * (v * v)"
    by (simp add: algebra_simps)
  moreover have "0 \<le> (a * u + b * v) * (a * u + b * v) + (a * d - b * b) * (v * v)"
  proof (rule add_nonneg_nonneg)
    show "0 \<le> (a * u + b * v) * (a * u + b * v)" by simp
    show "0 \<le> (a * d - b * b) * (v * v)"
      by (rule mult_nonneg_nonneg) (simp_all add: det)
  qed
  ultimately have "0 \<le> a * (a * (u * u) + 2 * b * (u * v) + d * (v * v))"
    by simp
  with pos show ?thesis
    by (simp add: zero_le_mult_iff)
qed

lemma valid_covariance_quad_form:
  assumes "valid_covariance A"
  shows "0 \<le> quad_form A v"
proof -
  from assms have sym: "m10 A = m01 A" and a: "0 \<le> m00 A" and d: "0 \<le> m11 A"
    and det: "m01 A * m01 A \<le> m00 A * m11 A"
    by (auto simp: valid_covariance_def symmetric_def)
  have "quad_form A v =
      m00 A * (fst v * fst v) + 2 * m01 A * (fst v * snd v) + m11 A * (snd v * snd v)"
    by (simp add: quad_form_def sym algebra_simps)
  with quad_nonneg [OF a d det] show ?thesis by simp
qed

lemma innovation_covariance_eq: "innovation_covariance P = m00 P + 4"
  by (simp add: innovation_covariance_def row_times_col_def row_times_mat_def
      Transpose_row_def H_def R_matrix_def measurement_error_def)

lemma kf_predict_entries:
  "snd (kf_predict x P a b) =
     \<lparr> m00 = m00 P + m01 (jacobian_F x a b) * m10 P
              + (m01 P + m01 (jacobian_F x a b) * m11 P) * m01 (jacobian_F x a b),
       m01 = (m01 P + m01 (jacobian_F x a b) * m11 P) * m11 (jacobian_F x a b),
       m10 = m11 (jacobian_F x a b) * m10 P
              + m11 (jacobian_F x a b) * m11 P * m01 (jacobian_F x a b),
       m11 = m11 (jacobian_F x a b) * m11 P * m11 (jacobian_F x a b) + 1 / 100 \<rparr>"
  by (simp add: kf_predict_def Let_def mat_add_def mat_mul_def Transpose_def Q_def
      process_noise_q_def jacobian_F_def)

lemma kf_predict_valid:
  assumes "valid_covariance P"
  shows "valid_covariance (snd (kf_predict x P a b))"
proof -
  define f where "f = m01 (jacobian_F x a b)"
  define g where "g = m11 (jacobian_F x a b)"
  from assms have sym: "m10 P = m01 P" and a: "0 \<le> m00 P" and d: "0 \<le> m11 P"
    and det: "m01 P * m01 P \<le> m00 P * m11 P"
    by (auto simp: valid_covariance_def symmetric_def)
  have p00: "0 \<le> m00 P + 2 * m01 P * f + m11 P * (f * f)"
    using quad_nonneg [OF a d det, of 1 f] by simp
  have gg: "0 \<le> g * g" by simp
  have "0 \<le> g * g * m11 P"
    using gg d by (rule mult_nonneg_nonneg)
  then have p11: "0 \<le> g * m11 P * g + 1 / 100"
    by (simp add: mult.commute mult.left_commute)
  have "(m00 P + f * m01 P + (m01 P + f * m11 P) * f) * (g * m11 P * g + 1 / 100)
        - (m01 P + f * m11 P) * g * (g * m01 P + g * m11 P * f)
      = g * g * (m00 P * m11 P - m01 P * m01 P)
        + (m00 P + 2 * m01 P * f + m11 P * (f * f)) / 100"
    by (simp add: algebra_simps)
  moreover have "0 \<le> g * g * (m00 P * m11 P - m01 P * m01 P)
        + (m00 P + 2 * m01 P * f + m11 P * (f * f)) / 100"
  proof (rule add_nonneg_nonneg)
    show "0 \<le> g * g * (m00 P * m11 P - m01 P * m01 P)"
      by (rule mult_nonneg_nonneg) (simp_all add: det)
    show "0 \<le> (m00 P + 2 * m01 P * f + m11 P * (f * f)) / 100"
      using p00 by simp
  qed
  ultimately have pdet:
    "0 \<le> (m00 P + f * m01 P + (m01 P + f * m11 P) * f) * (g * m11 P * g + 1 / 100)
        - (m01 P + f * m11 P) * g * (g * m01 P + g * m11 P * f)"
    by simp
  have p00': "0 \<le> m00 P + f * m01 P + (m01 P + f * m11 P) * f"
    using p00 by (simp add: algebra_simps)
  show ?thesis
    unfolding kf_predict_entries valid_covariance_def symmetric_def
    using p00' p11 pdet
    by (simp add: f_def [symmetric] g_def [symmetric] sym) (simp add: algebra_simps)
qed

lemma kf_update_entries:
  assumes "0 \<le> m00 P"
  shows "snd (kf_update x P z) =
     \<lparr> m00 = (1 - m00 P / (m00 P + 4)) * m00 P,
       m01 = (1 - m00 P / (m00 P + 4)) * m01 P,
       m10 = m10 P - m10 P / (m00 P + 4) * m00 P,
       m11 = m11 P - m10 P / (m00 P + 4) * m01 P \<rparr>"
proof -
  from assms have "m00 P + 4 \<noteq> 0" by simp
  then show ?thesis
    by (simp add: kf_update_def Let_def innovation_covariance_eq Invert_def
        col_times_scalar_def mat_times_col_def Transpose_row_def H_def mat_mul_def
        mat_sub_def SMatrixIdentity_def col_times_row_def)
qed

lemma kf_update_valid:
  assumes "valid_covariance P"
  shows "valid_covariance (snd (kf_update x P z))"
proof -
  define S where "S = m00 P + 4"
  from assms have sym: "m10 P = m01 P" and a: "0 \<le> m00 P" and d: "0 \<le> m11 P"
    and det: "m01 P * m01 P \<le> m00 P * m11 P"
    by (auto simp: valid_covariance_def symmetric_def)
  from a have S: "0 < S" by (simp add: S_def)
  have e00: "(1 - m00 P / S) * m00 P = 4 * m00 P / S"
    using S by (simp add: S_def field_simps)
  have e01: "(1 - m00 P / S) * m01 P = 4 * m01 P / S"
    using S by (simp add: S_def field_simps)
  have e10: "m01 P - m01 P / S * m00 P = 4 * m01 P / S"
    using S by (simp add: S_def field_simps)
  have e11: "m11 P - m01 P / S * m01 P = (m00 P * m11 P - m01 P * m01 P + 4 * m11 P) / S"
    using S by (simp add: S_def field_simps)
  have n00: "0 \<le> 4 * m00 P / S"
    using a S by simp
  have n11: "0 \<le> (m00 P * m11 P - m01 P * m01 P + 4 * m11 P) / S"
    using det d S by simp
  have key: "4 * m00 P * (m00 P * m11 P - m01 P * m01 P + 4 * m11 P) - 16 * (m01 P * m01 P)
        = 4 * (m00 P * m11 P - m01 P * m01 P) * S"
    by (simp add: S_def algebra_simps)
  have "4 * m00 P / S * ((m00 P * m11 P - m01 P * m01 P + 4 * m11 P) / S)
          - 4 * m01 P / S * (4 * m01 P / S)
        = (4 * m00 P * (m00 P * m11 P - m01 P * m01 P + 4 * m11 P) - 16 * (m01 P * m01 P))
            / (S * S)"
    by (simp add: diff_divide_distrib)
  also have "\<dots> = 4 * (m00 P * m11 P - m01 P * m01 P) / S"
    unfolding key using S by simp
  finally have "4 * m00 P / S * ((m00 P * m11 P - m01 P * m01 P + 4 * m11 P) / S)
          - 4 * m01 P / S * (4 * m01 P / S)
        = 4 * (m00 P * m11 P - m01 P * m01 P) / S" .
  moreover have "0 \<le> 4 * (m00 P * m11 P - m01 P * m01 P) / S"
    using det S by simp
  ultimately have ndet:
    "0 \<le> 4 * m00 P / S * ((m00 P * m11 P - m01 P * m01 P + 4 * m11 P) / S)
          - 4 * m01 P / S * (4 * m01 P / S)"
    by simp
  show ?thesis
    unfolding kf_update_entries [OF a] valid_covariance_def symmetric_def sym
      S_def [symmetric] e00 e01 e10 e11
    using n00 n11 ndet by simp
qed

lemma kalman_init_valid: "valid_covariance (P_est (kalman_init s))"
  by (simp add: kalman_init_def Let_def valid_covariance_def symmetric_def)

lemma kf_layer_valid:
  "valid_covariance (P_est s) \<Longrightarrow> valid_covariance (P_est (kf_layer i s))"
  by (simp add: kf_layer_def Let_def kf_update_valid kf_predict_valid)

lemma kf_after_valid: "valid_covariance (P_est (kf_after n s))"
proof (induction n)
  case 0
  show ?case by (simp add: kf_after_def kalman_init_valid)
next
  case (Suc n)
  then show ?case
    unfolding kf_after_Suc by (rule kf_layer_valid)
qed

section \<open>What the run reads and writes\<close>

lemma simulated_eq:
  "simulated z =
     (ground_truth (main_entry z))
       \<lparr> measured_y :=
           map (\<lambda>i. fst (true_state_after (Suc i)) + measurement_error * z i) [0..<n_layers],
         current_true_state := true_state_after n_layers,
         last_x := position_after n_layers,
         rng := (z, n_layers) \<rparr>"
proof -
  have "rng (ground_truth (main_entry z)) = (z, 0)"
    by (simp add: ground_truth_rng main_entry_def)
  from simulate_measurements_eq [OF this] show ?thesis
    by (simp add: simulated_def)
qed

lemma simulated_fields:
  "measured_y (simulated z) =
     map (\<lambda>i. fst (true_state_after (Suc i)) + measurement_error * z i) [0..<n_layers]"
  "rng (simulated z) = (z, n_layers)"
  "true_x (simulated z) = map (\<lambda>k. (real k + 1) / 2) [0..<200]"
  "length (true_y (simulated z)) = 200"
  by (simp_all add: simulated_eq ground_truth_true_x ground_truth_length)

lemma kf_after_kf_y:
  "kf_y (kf_after n s) = map (\<lambda>i. fst (x_est (kf_after (Suc i) s))) [0..<n]"
proof (induction n)
  case 0
  show ?case by (simp add: kf_after_def kalman_init_def Let_def)
next
  case (Suc n)
  have "kf_y (kf_after (Suc n) s) = kf_y (kf_after n s) @ [fst (x_est (kf_after (Suc n) s))]"
    unfolding kf_after_Suc by (simp add: kf_layer_def Let_def)
  with Suc show ?case by simp
qed

text \<open>What the filter reads of the state.\<close>

lemma kf_layer_reads:
  assumes "x_est s1 = x_est s2" "P_est s1 = P_est s2" "last_kf_x s1 = last_kf_x s2"
    "kf_x s1 = kf_x s2" "kf_y s1 = kf_y s2" "measured_y s1 = measured_y s2"
  shows "x_est (kf_layer i s1) = x_est (kf_layer i s2)
       \<and> P_est (kf_layer i s1) = P_est (kf_layer i s2)
       \<and> last_kf_x (kf_layer i s1) = last_kf_x (kf_layer i s2)
       \<and> kf_x (kf_layer i s1) = kf_x (kf_layer i s2)
       \<and> kf_y (kf_layer i s1) = kf_y (kf_layer i s2)
       \<and> measured_y (kf_layer i s1) = measured_y (kf_layer i s2)"
  using assms by (simp add: kf_layer_def Let_def)

lemma kf_loop_reads:
  assumes "x_est s1 = x_est s2" "P_est s1 = P_est s2" "last_kf_x s1 = last_kf_x s2"
    "kf_x s1 = kf_x s2" "kf_y s1 = kf_y s2" "measured_y s1 = measured_y s2"
  shows "kf_x (fold kf_layer is s1) = kf_x (fold kf_layer is s2)
       \<and> kf_y (fold kf_layer is s1) = kf_y (fold kf_layer is s2)"
  using assms
proof (induction "is" arbitrary: s1 s2)
  case Nil
  then show ?case by simp
next
  case (Cons i "is")
  from kf_layer_reads [OF Cons.prems, of i]
  have a: "x_est (kf_layer i s1) = x_est (kf_layer i s2)"
    and b: "P_est (kf_layer i s1) = P_est (kf_layer i s2)"
    and c: "last_kf_x (kf_layer i s1) = last_kf_x (kf_layer i s2)"
    and d: "kf_x (kf_layer i s1) = kf_x (kf_layer i s2)"
    and e: "kf_y (kf_layer i s1) = kf_y (kf_layer i s2)"
    and f: "measured_y (kf_layer i s1) = measured_y (kf_layer i s2)"
    by blast+
  show ?case
    unfolding fold_Cons comp_apply by (rule Cons.IH [OF a b c d e f])
qed

lemma kalman_filter_reads:
  assumes "x_est (kalman_init s1) = x_est (kalman_init s2)"
    and "measured_y s1 = measured_y s2"
  shows "kf_x (kalman_filter s1) = kf_x (kalman_filter s2)
       \<and> kf_y (kalman_filter s1) = kf_y (kalman_filter s2)"
  unfolding kalman_filter_def kf_after_def
proof (rule kf_loop_reads)
  show "x_est (kalman_init s1) = x_est (kalman_init s2)" by (rule assms(1))
  show "measured_y (kalman_init s1) = measured_y (kalman_init s2)"
    using assms(2) by (simp add: kalman_init_def Let_def)
qed (simp_all add: kalman_init_def Let_def)

lemma x_est_kalman_init:
  "x_est (kalman_init s) =
     (5 + 5 * fst (rng s) (snd (rng s)), - (1 / 5) + fst (rng s) (Suc (snd (rng s))) / 10)"
  by (simp add: kalman_init_def Let_def Gaus_def true_state_initial_def)

section \<open>The Jacobian and the domain of the motion model\<close>

text \<open>
  Claim C2. For a state with \<open>|\<phi>| < \<pi>/2\<close> and any two positions, \<open>jacobian_F\<close> returns the
  matrix with entries \<open>1\<close>, \<open>\<Delta>x (1 + tan\<^sup>2 \<phi>) = \<Delta>x sec\<^sup>2 \<phi>\<close>, \<open>0\<close> and
  \<open>1 - (\<Delta>x / R) sin \<phi> / cos\<^sup>2 \<phi>\<close>, and each entry is the partial derivative of the
  corresponding component of \<open>propagate\<close> in the corresponding component of the state.
\<close>

theorem jacobian_F_is_derivative:
  assumes "\<bar>phi\<bar> < pi / 2"
  shows "jacobian_F (y, phi) x_from x_to =
           \<lparr> m00 = 1,
             m01 = (x_to - x_from) * (1 + (tan phi)\<^sup>2),
             m10 = 0,
             m11 = 1 - ((x_to - x_from) / R) * sin phi / (cos phi)\<^sup>2 \<rparr>
       \<and> (x_to - x_from) * (1 + (tan phi)\<^sup>2) = (x_to - x_from) * (1 / cos phi)\<^sup>2
       \<and> ((\<lambda>v. fst (propagate (v, phi) x_from x_to)) has_real_derivative
            m00 (jacobian_F (y, phi) x_from x_to)) (at y)
       \<and> ((\<lambda>p. fst (propagate (y, p) x_from x_to)) has_real_derivative
            m01 (jacobian_F (y, phi) x_from x_to)) (at phi)
       \<and> ((\<lambda>v. snd (propagate (v, phi) x_from x_to)) has_real_derivative
            m10 (jacobian_F (y, phi) x_from x_to)) (at y)
       \<and> ((\<lambda>p. snd (propagate (y, p) x_from x_to)) has_real_derivative
            m11 (jacobian_F (y, phi) x_from x_to)) (at phi)"
proof (intro conjI)
  from assms have c: "cos phi \<noteq> 0"
    by (rule cos_nonzero_in_domain)
  show "jacobian_F (y, phi) x_from x_to =
           \<lparr> m00 = 1,
             m01 = (x_to - x_from) * (1 + (tan phi)\<^sup>2),
             m10 = 0,
             m11 = 1 - ((x_to - x_from) / R) * sin phi / (cos phi)\<^sup>2 \<rparr>"
    by (simp add: jacobian_F_def Let_def power2_eq_square)
  show "(x_to - x_from) * (1 + (tan phi)\<^sup>2) = (x_to - x_from) * (1 / cos phi)\<^sup>2"
    using c tan_sec [of phi] by (simp add: power_one_over divide_inverse power_inverse)
  show "((\<lambda>v. fst (propagate (v, phi) x_from x_to)) has_real_derivative
            m00 (jacobian_F (y, phi) x_from x_to)) (at y)"
    by (auto simp: propagate_def jacobian_F_def Let_def intro!: derivative_eq_intros)
  show "((\<lambda>p. fst (propagate (y, p) x_from x_to)) has_real_derivative
            m01 (jacobian_F (y, phi) x_from x_to)) (at phi)"
  proof -
    have "((\<lambda>p. (x_to - x_from) * tan p) has_real_derivative
             (x_to - x_from) * (1 + tan phi * tan phi)) (at phi)"
      by (rule DERIV_cmult [OF tan_deriv_sec [OF c]])
    then have "((\<lambda>p. y + (x_to - x_from) * tan p) has_real_derivative
             (x_to - x_from) * (1 + tan phi * tan phi)) (at phi)"
      using DERIV_add [OF DERIV_const [of y]] by fastforce
    then show ?thesis
      by (simp add: propagate_def jacobian_F_def Let_def)
  qed
  show "((\<lambda>v. snd (propagate (v, phi) x_from x_to)) has_real_derivative
            m10 (jacobian_F (y, phi) x_from x_to)) (at y)"
    by (auto simp: propagate_def jacobian_F_def Let_def intro!: derivative_eq_intros)
  have "((\<lambda>p. ((x_to - x_from) / R) * (1 / cos p)) has_real_derivative
            ((x_to - x_from) / R) * (sin phi / (cos phi * cos phi))) (at phi)"
    by (rule DERIV_cmult [OF sec_deriv [OF c]])
  then have "((\<lambda>p. p - ((x_to - x_from) / R) * (1 / cos p)) has_real_derivative
            1 - ((x_to - x_from) / R) * (sin phi / (cos phi * cos phi))) (at phi)"
    by (rule DERIV_diff [OF DERIV_ident])
  then show "((\<lambda>p. snd (propagate (y, p) x_from x_to)) has_real_derivative
            m11 (jacobian_F (y, phi) x_from x_to)) (at phi)"
    by (simp add: propagate_def jacobian_F_def Let_def)
qed

theorem jacobian_F_is_derivative_witness:
  "\<bar>0 :: real\<bar> < pi / 2
   \<and> jacobian_F (5, 0) 0 10 = \<lparr> m00 = 1, m01 = 10, m10 = 0, m11 = 1 \<rparr>
   \<and> ((\<lambda>p. fst (propagate (5, p) 0 10)) has_real_derivative 10) (at 0)
   \<and> ((\<lambda>p. snd (propagate (5, p) 0 10)) has_real_derivative 1) (at 0)"
  using jacobian_F_is_derivative [of 0 5 0 10] by auto

text \<open>
  Claim C3, as stated: for a state with \<open>|\<phi>| \<ge> \<pi>/2\<close>, \<open>propagate\<close> and \<open>jacobian_F\<close>
  fail with \<open>DomainError\<close>. They do not: at \<open>\<phi> = \<pi>\<close> both return.
\<close>

theorem domain_guard_counterexample:
  "pi / 2 \<le> \<bar>pi\<bar>
   \<and> propagate_outcome (5, pi) 0 10 = Inr (5, pi + 3 / 100)
   \<and> propagate_outcome (5, pi) 0 10 \<noteq> Inl DomainError
   \<and> jacobian_F_outcome (5, pi) 0 10 = Inr \<lparr> m00 = 1, m01 = 10, m10 = 0, m11 = 1 \<rparr>
   \<and> jacobian_F_outcome (5, pi) 0 10 \<noteq> Inl DomainError"
  by (simp add: propagate_outcome_def jacobian_F_outcome_def propagate_def jacobian_F_def
      Let_def R_value)

text \<open>
  Claim C3, amended. For every state with \<open>|\<phi>| \<ge> \<pi>/2\<close> and \<open>cos \<phi> \<noteq> 0\<close>,
  \<open>propagate\<close> and \<open>jacobian_F\<close> return the value of their formulas and never a
  \<open>DomainError\<close>: the motion model has no domain check.
\<close>

theorem motion_model_has_no_domain_check:
  assumes "pi / 2 \<le> \<bar>phi\<bar>" and "cos phi \<noteq> 0"
  shows "propagate_outcome (y, phi) x_from x_to =
           Inr (y + (x_to - x_from) * tan phi, phi - ((x_to - x_from) / R) / cos phi)
       \<and> jacobian_F_outcome (y, phi) x_from x_to =
           Inr \<lparr> m00 = 1,
                 m01 = (x_to - x_from) * (1 + tan phi * tan phi),
                 m10 = 0,
                 m11 = 1 - ((x_to - x_from) / R) * (sin phi / (cos phi * cos phi)) \<rparr>"
  by (simp add: propagate_outcome_def jacobian_F_outcome_def propagate_def jacobian_F_def
      Let_def)

theorem motion_model_has_no_domain_check_witness:
  "pi / 2 \<le> \<bar>- pi\<bar> \<and> cos (- pi) \<noteq> 0
   \<and> propagate_outcome (0, - pi) 0 20 = Inr (0, - pi + 3 / 50)
   \<and> jacobian_F_outcome (0, - pi) 0 20 = Inr \<lparr> m00 = 1, m01 = 20, m10 = 0, m11 = 1 \<rparr>"
  using motion_model_has_no_domain_check [of "- pi" 0 0 20] by (simp add: R_value)

section \<open>The innovation covariance in the update step\<close>

text \<open>
  Claim C10. The innovation covariance is \<open>S = P_pred(0,0) + \<sigma>\<^sup>2\<close> with \<open>\<sigma>\<^sup>2 = 4\<close>; it is
  positive, and its inversion succeeds, whenever \<open>P_pred(0,0) \<ge> 0\<close>. In the run, for every
  noise sequence, the predicted covariance of every layer is positive semi-definite, so that
  \<open>S \<ge> 4\<close> and the inversion yields \<open>1 / S\<close> at every layer.
\<close>

theorem innovation_covariance_positive:
  "(0 \<le> m00 P_pred \<longrightarrow>
      innovation_covariance P_pred = m00 P_pred + measurement_error * measurement_error
      \<and> measurement_error * measurement_error = 4
      \<and> 0 < innovation_covariance P_pred
      \<and> fst (Invert (innovation_covariance P_pred) 0))
   \<and> (i < n_layers \<longrightarrow>
      (let s = kf_after i (simulated z);
           P = snd (kf_predict (x_est s) (P_est s) (last_kf_x s) (layer_x_positions ! i))
       in (\<forall>v. 0 \<le> quad_form P v)
          \<and> 0 \<le> m00 P
          \<and> 4 \<le> innovation_covariance P
          \<and> Invert (innovation_covariance P) 0 = (True, 1 / innovation_covariance P)))"
proof (rule conjI)
  show "0 \<le> m00 P_pred \<longrightarrow>
      innovation_covariance P_pred = m00 P_pred + measurement_error * measurement_error
      \<and> measurement_error * measurement_error = 4
      \<and> 0 < innovation_covariance P_pred
      \<and> fst (Invert (innovation_covariance P_pred) 0)"
    by (simp add: innovation_covariance_eq measurement_error_def Invert_def)
next
  define s where "s = kf_after i (simulated z)"
  define P where "P = snd (kf_predict (x_est s) (P_est s) (last_kf_x s) (layer_x_positions ! i))"
  have "valid_covariance (P_est s)"
    unfolding s_def by (rule kf_after_valid)
  then have valid: "valid_covariance P"
    unfolding P_def by (rule kf_predict_valid)
  then have nonneg: "0 \<le> m00 P"
    by (simp add: valid_covariance_def)
  from valid have psd: "\<forall>v. 0 \<le> quad_form P v"
    by (simp add: valid_covariance_quad_form)
  from nonneg have S: "4 \<le> innovation_covariance P"
    and inv: "Invert (innovation_covariance P) 0 = (True, 1 / innovation_covariance P)"
    by (simp_all add: innovation_covariance_eq Invert_def)
  from psd nonneg S inv show "i < n_layers \<longrightarrow>
      (let s = kf_after i (simulated z);
           P = snd (kf_predict (x_est s) (P_est s) (last_kf_x s) (layer_x_positions ! i))
       in (\<forall>v. 0 \<le> quad_form P v)
          \<and> 0 \<le> m00 P
          \<and> 4 \<le> innovation_covariance P
          \<and> Invert (innovation_covariance P) 0 = (True, 1 / innovation_covariance P))"
    unfolding Let_def s_def [symmetric] P_def [symmetric] by blast
qed

theorem innovation_covariance_positive_witness:
  "(0 :: real) \<le> m00 \<lparr> m00 = 100, m01 = 0, m10 = 0, m11 = 1 \<rparr>
   \<and> innovation_covariance \<lparr> m00 = 100, m01 = 0, m10 = 0, m11 = 1 \<rparr> = 104
   \<and> (0 :: nat) < n_layers
   \<and> 4 \<le> innovation_covariance
        (snd (kf_predict (x_est (kf_after 0 (simulated (\<lambda>k. 0))))
                (P_est (kf_after 0 (simulated (\<lambda>k. 0))))
                (last_kf_x (kf_after 0 (simulated (\<lambda>k. 0))))
                (layer_x_positions ! 0)))"
  using innovation_covariance_positive
    [of "\<lparr> m00 = 100, m01 = 0, m10 = 0, m11 = 1 \<rparr>" 0 "\<lambda>k. 0"]
  by (simp add: n_layers_def Let_def measurement_error_def)

section \<open>The sequences of the output\<close>

lemma kalman_filter_fields:
  "kf_x (kalman_filter s) = layer_x_positions"
  "kf_y (kalman_filter s) = map (\<lambda>i. fst (x_est (kf_after (Suc i) s))) [0..<n_layers]"
  "measured_y (kalman_filter s) = measured_y s"
  "true_x (kalman_filter s) = true_x s"
  "true_y (kalman_filter s) = true_y s"
  using kf_after_frame [of n_layers s]
  by (simp_all add: kalman_filter_def layers_by_index kf_after_kf_y)

lemma main_run_fields:
  "detector_layers (main_run z) = layer_x_positions"
  "map fst (true_track (main_run z)) = map (\<lambda>k. (real k + 1) / 2) [0..<200]"
  "map fst (hits (main_run z)) = layer_x_positions"
  "map snd (hits (main_run z)) =
     map (\<lambda>i. fst (true_state_after (Suc i)) + measurement_error * z i) [0..<n_layers]"
  "map fst (kf_track (main_run z)) = layer_x_positions"
  "map snd (kf_track (main_run z)) =
     map (\<lambda>i. fst (x_est (kf_after (Suc i) (simulated z)))) [0..<n_layers]"
proof -
  have l: "length layer_x_positions = n_layers"
    by (simp add: layer_x_positions_def n_layers_def)
  show "detector_layers (main_run z) = layer_x_positions"
    by (simp add: main_run_def json_output_def layers_by_index)
  have "map fst (true_track (main_run z)) =
      map (\<lambda>i. true_x (simulated z) ! i) [0..<length (true_x (simulated z))]"
    by (simp add: main_run_def json_output_def kalman_filter_fields comp_def)
  then show "map fst (true_track (main_run z)) = map (\<lambda>k. (real k + 1) / 2) [0..<200]"
    by (simp only: map_nth simulated_fields)
  show "map fst (hits (main_run z)) = layer_x_positions"
    by (simp add: main_run_def json_output_def comp_def layers_by_index)
  have "map snd (hits (main_run z)) =
      map (\<lambda>i. measured_y (simulated z) ! i) [0..<length (measured_y (simulated z))]"
    by (simp add: main_run_def json_output_def kalman_filter_fields comp_def simulated_fields)
  then show "map snd (hits (main_run z)) =
     map (\<lambda>i. fst (true_state_after (Suc i)) + measurement_error * z i) [0..<n_layers]"
    by (simp only: map_nth simulated_fields)
  have "map fst (kf_track (main_run z)) =
      map (\<lambda>i. layer_x_positions ! i) [0..<length layer_x_positions]"
    by (simp add: main_run_def json_output_def kalman_filter_fields comp_def)
  then show "map fst (kf_track (main_run z)) = layer_x_positions"
    by (simp only: map_nth)
  have "map snd (kf_track (main_run z)) =
      map (\<lambda>i. kf_y (kalman_filter (simulated z)) ! i)
        [0..<length (kf_y (kalman_filter (simulated z)))]"
    by (simp add: main_run_def json_output_def kalman_filter_fields comp_def l)
  then show "map snd (kf_track (main_run z)) =
     map (\<lambda>i. fst (x_est (kf_after (Suc i) (simulated z)))) [0..<n_layers]"
    by (simp only: map_nth kalman_filter_fields)
qed

text \<open>
  Claim C6. With the fixed configuration, whatever the noise sequence, the run yields exactly
  ten hits and exactly ten fitted points, at the ten layers in their order; the measured
  value of a hit is the \<open>y\<close> of the true state carried layer to layer by \<open>propagate\<close>, plus
  one sample of the noise source scaled by the measurement error \<open>2\<close>.
\<close>

theorem scenario_ten_hits_ten_fitted_points:
  "layer_x_positions = [10, 20, 30, 40, 50, 60, 70, 80, 90, 100]
   \<and> true_state_initial = (5, - 0.2) \<and> measurement_error = 2 \<and> pt = 1 \<and> B = 1
   \<and> length (hits (main_run z)) = 10
   \<and> length (kf_track (main_run z)) = 10
   \<and> map fst (hits (main_run z)) = layer_x_positions
   \<and> map fst (kf_track (main_run z)) = layer_x_positions
   \<and> map snd (hits (main_run z)) =
       map (\<lambda>i. fst (true_state_after (Suc i)) + measurement_error * z i) [0..<10]
   \<and> map snd (kf_track (main_run z)) =
       map (\<lambda>i. fst (x_est (kf_after (Suc i) (simulated z)))) [0..<10]"
proof -
  have "length (map fst (hits (main_run z))) = 10"
    and "length (map fst (kf_track (main_run z))) = 10"
    unfolding main_run_fields by (simp_all add: layer_x_positions_def)
  then have "length (hits (main_run z)) = 10" and "length (kf_track (main_run z)) = 10"
    by simp_all
  moreover have "n_layers = 10" by (simp add: n_layers_def)
  ultimately show ?thesis
    using main_run_fields [of z]
    by (simp add: layer_x_positions_def true_state_initial_def measurement_error_def
        pt_def B_def del: upt_Suc)
qed

section \<open>What the fitted track depends on\<close>

lemma kf_track_reads:
  assumes "kf_x s1 = kf_x s2" and "kf_y s1 = kf_y s2"
  shows "kf_track (json_output s1) = kf_track (json_output s2)"
  using assms by (simp add: json_output_def)

text \<open>
  Claim C7. The fitted track depends on the measurements and, through the initial guess, on
  the noise source, not on the true path: two states on entry to the filter with the same
  ten measurements and the same generator give the same \<open>kf_track\<close>, whatever their
  \<open>true_x\<close> and \<open>true_y\<close> (and the other variables of the simulation) are.
\<close>

theorem kf_track_independent_of_true_path:
  assumes "measured_y s1 = measured_y s2"
    and "length (measured_y s1) = n_layers"
    and "rng s1 = rng s2"
  shows "kf_track (json_output (kalman_filter s1)) = kf_track (json_output (kalman_filter s2))"
proof -
  from assms(3) have "x_est (kalman_init s1) = x_est (kalman_init s2)"
    by (simp add: x_est_kalman_init)
  from kalman_filter_reads [OF this assms(1)]
  have "kf_x (kalman_filter s1) = kf_x (kalman_filter s2)"
    and "kf_y (kalman_filter s1) = kf_y (kalman_filter s2)"
    by simp_all
  then show ?thesis
    by (rule kf_track_reads)
qed

theorem kf_track_independent_of_true_path_witness:
  "true_x ((main_entry (\<lambda>k. 0)) \<lparr> measured_y := replicate 10 1 \<rparr>)
     \<noteq> true_x ((main_entry (\<lambda>k. 0)) \<lparr> measured_y := replicate 10 1, true_x := [1 / 2, 1],
                                         true_y := [7, 9] \<rparr>)
   \<and> kf_track (json_output (kalman_filter
        ((main_entry (\<lambda>k. 0)) \<lparr> measured_y := replicate 10 1 \<rparr>)))
     = kf_track (json_output (kalman_filter
        ((main_entry (\<lambda>k. 0)) \<lparr> measured_y := replicate 10 1, true_x := [1 / 2, 1],
                                  true_y := [7, 9] \<rparr>)))"
  using kf_track_independent_of_true_path
    [of "(main_entry (\<lambda>k. 0)) \<lparr> measured_y := replicate 10 1 \<rparr>"
        "(main_entry (\<lambda>k. 0)) \<lparr> measured_y := replicate 10 1, true_x := [1 / 2, 1],
                                  true_y := [7, 9] \<rparr>"]
  by (simp add: n_layers_def main_entry_def)

text \<open>
  The order in which the run consumes the noise source: sample \<open>i\<close> for the hit of layer
  \<open>i\<close>, then samples \<open>10\<close> and \<open>11\<close> for the two components of the initial guess, twelve
  draws in all.
\<close>

lemma noise_consumption_order:
  "measured_y (simulated z) = map (\<lambda>i. fst (true_state_after (Suc i)) + 2 * z i) [0..<10]
   \<and> x_est (kalman_init (simulated z)) = (5 + 5 * z 10, - (1 / 5) + z 11 / 10)
   \<and> rng (kalman_filter (simulated z)) = (z, 12)"
proof -
  have "measured_y (simulated z) =
      map (\<lambda>i. fst (true_state_after (Suc i)) + 2 * z i) [0..<10]"
    by (simp add: simulated_fields n_layers_def measurement_error_def del: upt_Suc)
  moreover have "x_est (kalman_init (simulated z)) = (5 + 5 * z 10, - (1 / 5) + z 11 / 10)"
    by (simp add: x_est_kalman_init simulated_fields n_layers_def)
  moreover have "rng (kalman_filter (simulated z)) = (z, 12)"
    using kf_after_frame [of n_layers "simulated z"]
    by (simp add: kalman_filter_def kalman_init_def Let_def Gaus_def simulated_fields
        n_layers_def)
  ultimately show ?thesis by blast
qed

text \<open>
  Claim C8: for the fixed seed and configuration, any two runs produce the same \<open>hits\<close>
  and \<open>kf_track\<close>. The source constructs its generator as \<open>TRandom3 rng(0)\<close>, "for
  reproducibility"; what sequence that generator yields is ROOT's matter, and a parameter
  here. The hits follow that sequence: two runs whose generators differ in one of the ten
  samples drawn for the hits produce different \<open>hits\<close>. The run is therefore reproducible
  only if the generator seeded with \<open>0\<close> yields the same sequence in every run.
\<close>

theorem hits_differ_when_noise_differs:
  assumes "i < n_layers" and "z1 i \<noteq> z2 i"
  shows "hits (main_run z1) \<noteq> hits (main_run z2)"
proof
  assume "hits (main_run z1) = hits (main_run z2)"
  then have "map snd (hits (main_run z1)) = map snd (hits (main_run z2))"
    by simp
  then have "map (\<lambda>i. fst (true_state_after (Suc i)) + measurement_error * z1 i) [0..<n_layers]
      = map (\<lambda>i. fst (true_state_after (Suc i)) + measurement_error * z2 i) [0..<n_layers]"
    by (simp only: main_run_fields)
  then have "map (\<lambda>i. fst (true_state_after (Suc i)) + measurement_error * z1 i) [0..<n_layers] ! i
      = map (\<lambda>i. fst (true_state_after (Suc i)) + measurement_error * z2 i) [0..<n_layers] ! i"
    by (simp only:)
  with assms(1) have "measurement_error * z1 i = measurement_error * z2 i"
    by simp
  with assms(2) show False
    by (simp add: measurement_error_def)
qed

theorem hits_differ_when_noise_differs_witness:
  "hits (main_run (\<lambda>k. 0)) \<noteq> hits (main_run (\<lambda>k. 1))"
  using hits_differ_when_noise_differs [of 0 "\<lambda>k. 0" "\<lambda>k. 1"]
  by (simp add: n_layers_def)

text \<open>
  Claim C9. Each of the four sequences of the output is in strictly increasing order of
  \<open>x\<close>; the true track has its \<open>x\<close> at \<open>0.5, 1, 1.5, \<dots>\<close> and ends at the last layer,
  \<open>x = 100\<close>.
\<close>

theorem output_sequences_increasing_in_x:
  "sorted_wrt (<) (detector_layers (main_run z))
   \<and> sorted_wrt (<) (map fst (true_track (main_run z)))
   \<and> sorted_wrt (<) (map fst (hits (main_run z)))
   \<and> sorted_wrt (<) (map fst (kf_track (main_run z)))
   \<and> map fst (true_track (main_run z)) = map (\<lambda>k. (real k + 1) / 2) [0..<200]
   \<and> true_track (main_run z) \<noteq> []
   \<and> fst (hd (true_track (main_run z))) = 1 / 2
   \<and> fst (last (true_track (main_run z))) = 100
   \<and> last (detector_layers (main_run z)) = 100"
proof -
  have layers: "sorted_wrt (<) layer_x_positions" and "last layer_x_positions = 100"
    by (simp_all add: layer_x_positions_def)
  have tx: "map fst (true_track (main_run z)) = map (\<lambda>k. (real k + 1) / 2) [0..<200]"
    by (rule main_run_fields)
  have dense: "sorted_wrt (<) (map (\<lambda>k. (real k + 1) / 2) [0..<200])"
    by (simp add: sorted_wrt_map sorted_wrt_iff_nth_less)
  from tx have ne: "true_track (main_run z) \<noteq> []"
    by auto
  have "fst (hd (true_track (main_run z))) = hd (map fst (true_track (main_run z)))"
    using ne by (simp add: hd_map)
  also have "\<dots> = 1 / 2"
    unfolding tx by (simp add: hd_map upt_conv_Cons)
  finally have first: "fst (hd (true_track (main_run z))) = 1 / 2" .
  have "fst (last (true_track (main_run z))) = last (map fst (true_track (main_run z)))"
    using ne by (simp add: last_map)
  also have "\<dots> = 100"
    unfolding tx by (simp add: last_map)
  finally have final: "fst (last (true_track (main_run z))) = 100" .
  from layers dense tx ne first final \<open>last layer_x_positions = 100\<close> show ?thesis
    by (simp add: main_run_fields)
qed

end
